theory Spec2Isabelle
  imports Main "HOL-Library.Multiset"
begin

section \<open>Errors\<close>

text \<open>
  Every exception the modelled Python code can raise is a value of \<open>error\<close>; a function
  that may raise returns \<open>error + 'a\<close> with \<open>Inl\<close> for the exception.  The exceptions whose
  message a property talks about carry it.
\<close>

datatype error =
    ValueError string
  | KeyError string
  | AttributeError string
  | TypeError
  | IndexError
  | StopIteration
  | ValidationError "string list"

section \<open>Path expressions (\<open>traverse_path/by_path.py\<close>)\<close>

subsection \<open>Splitting and joining on the separator\<close>

text \<open>
  \<open>str.split("__")\<close>: the separator is found from the left, occurrences do not overlap, and
  the result always has at least one part (\<open>"".split("__") = [""]\<close>).
\<close>

fun path_as_parts :: "string \<Rightarrow> string list" where
  "path_as_parts [] = [[]]"
| "path_as_parts [a] = [[a]]"
| "path_as_parts (a # b # cs) =
     (if a = CHR ''_'' \<and> b = CHR ''_'' then [] # path_as_parts cs
      else (case path_as_parts (b # cs) of
              [] \<Rightarrow> [[a]]
            | p # ps \<Rightarrow> (a # p) # ps))"

text \<open>\<open>"__".join(parts)\<close>.\<close>

fun join_parts :: "string list \<Rightarrow> string" where
  "join_parts [] = []"
| "join_parts [p] = p"
| "join_parts (p # q # ps) = p @ ''__'' @ join_parts (q # ps)"

subsection \<open>The class \<open>AttrPath\<close>\<close>

text \<open>
  An \<open>AttrPath\<close> holds the path text and the deque of its parts.  The deque is a list
  whose head is the left end.
\<close>

record AttrPath =
  ap_value :: string
  ap_parts :: "string list"

text \<open>\<open>AttrPath.__init__\<close>: \<open>self._parts = deque(self.value.split(self._separator))\<close>.\<close>

definition AttrPath_init :: "string \<Rightarrow> AttrPath" where
  "AttrPath_init v = \<lparr>ap_value = v, ap_parts = path_as_parts v\<rparr>"

text \<open>
  \<open>deque.rotate(n)\<close> moves the deque \<open>n\<close> steps to the right, to the left when \<open>n\<close> is
  negative, and does nothing on an empty deque.  \<open>rotate\<close> of HOL moves to the left.
\<close>

definition deque_rotate :: "int \<Rightarrow> 'a list \<Rightarrow> 'a list" where
  "deque_rotate n xs =
     (if xs = [] then [] else rotate (nat ((- n) mod int (length xs))) xs)"

text \<open>
  \<open>AttrPath.popleft\<close>: \<open>deque.popleft()\<close> raises \<open>IndexError\<close> on an empty deque.  The
  methods mutate the path, so the model returns the result together with the path after
  the call.
\<close>

definition popleft :: "AttrPath \<Rightarrow> (error + string) \<times> AttrPath" where
  "popleft p =
     (case ap_parts p of
        [] \<Rightarrow> (Inl IndexError, p)
      | x # xs \<Rightarrow> (Inr x, p\<lparr>ap_parts := xs\<rparr>))"

text \<open>
  \<open>AttrPath.pop(index=-1)\<close>:
  \<^verbatim>\<open>
    self._parts.rotate(-index)
    value = self._parts.popleft()
    self._parts.rotate(index)
    return value
  \<close>
  When \<open>popleft\<close> raises, the second rotation is not reached.
\<close>

definition pop :: "int \<Rightarrow> AttrPath \<Rightarrow> (error + string) \<times> AttrPath" where
  "pop index p =
     (let p1 = p\<lparr>ap_parts := deque_rotate (- index) (ap_parts p)\<rparr> in
      case popleft p1 of
        (Inl e, p2) \<Rightarrow> (Inl e, p2)
      | (Inr v, p2) \<Rightarrow> (Inr v, p2\<lparr>ap_parts := deque_rotate index (ap_parts p2)\<rparr>))"

text \<open>\<open>pop()\<close> with the default index, the removal at the right end.\<close>

definition pop_back :: "AttrPath \<Rightarrow> (error + string) \<times> AttrPath" where
  "pop_back p = pop (- 1) p"

text \<open>\<open>AttrPath.render\<close> and \<open>AttrPath.depth\<close>.\<close>

definition render :: "AttrPath \<Rightarrow> string" where
  "render p = join_parts (ap_parts p)"

definition depth :: "AttrPath \<Rightarrow> nat" where
  "depth p = length (ap_parts p)"

section \<open>Python values\<close>

text \<open>
  The values that the records of \<open>models.py\<close> hold and that a caller passes as the right
  operand of a predicate: \<open>None\<close>, integers, strings (the string enumerations included),
  lists, and instances of classes.  An instance is the name of its class and the table of
  its attributes.  Strings are lists of 8-bit characters; the letters that case mapping
  and the class \<open>\w\<close> know are the ASCII ones.  Built-in values expose no data attribute,
  and an instance supports attribute lookup and equality only.
\<close>

datatype pyval =
    PyNone
  | PyInt int
  | PyStr string
  | PyList "pyval list"
  | PyObj string "(string \<times> pyval) list"

text \<open>\<open>type(obj).__name__\<close>.\<close>

fun type_name :: "pyval \<Rightarrow> string" where
  "type_name PyNone = ''NoneType''"
| "type_name (PyInt _) = ''int''"
| "type_name (PyStr _) = ''str''"
| "type_name (PyList _) = ''list''"
| "type_name (PyObj t _) = t"

definition quoted :: "string \<Rightarrow> string" where
  "quoted s = CHR 0x27 # s @ [CHR 0x27]"

text \<open>The message of the \<open>AttributeError\<close> of a failed attribute lookup.\<close>

definition no_attribute :: "string \<Rightarrow> string \<Rightarrow> string" where
  "no_attribute t name = quoted t @ '' object has no attribute '' @ quoted name"

text \<open>
  The built-in \<open>getattr(obj, name)\<close>; \<open>None\<close> of HOL stands for the \<open>AttributeError\<close> it
  raises, whose message is \<open>no_attribute (type_name obj) name\<close>.
\<close>

fun getattr :: "pyval \<Rightarrow> string \<Rightarrow> pyval option" where
  "getattr (PyObj t fs) name = map_of fs name"
| "getattr v name = None"

section \<open>Resolving a path (\<open>getattr_path\<close>)\<close>

text \<open>The parameter \<open>path: str | AttrPath\<close>.\<close>

datatype path_arg = PathStr string | PathObj AttrPath

text \<open>\<open>AttrPath.str_to_path\<close>: a string is parsed, an \<open>AttrPath\<close> is returned as it is.\<close>

fun str_to_path :: "path_arg \<Rightarrow> AttrPath" where
  "str_to_path (PathStr s) = AttrPath_init s"
| "str_to_path (PathObj p) = p"

text \<open>The text of \<open>{path}\<close> in a formatted string: \<open>AttrPath.__str__\<close> renders the parts.\<close>

fun path_text :: "path_arg \<Rightarrow> string" where
  "path_text (PathStr s) = s"
| "path_text (PathObj p) = render p"

text \<open>The parameter \<open>default: Any = MISSING\<close>.\<close>

datatype default_arg = MISSING | Default pyval

text \<open>The message built in \<open>getattr_path\<close>; \<open>e\<close> is the message of the error caught.\<close>

definition path_error_msg :: "pyval \<Rightarrow> path_arg \<Rightarrow> string \<Rightarrow> string" where
  "path_error_msg obj path e =
     quoted (type_name obj) @ '' object has no attribute path '' @ quoted (path_text path)
       @ '', since '' @ e"

text \<open>
  The loop of \<open>getattr_path\<close> over the parts, \<open>current\<close> being the value reached so far:
  \<^verbatim>\<open>
    for name in attr_path:
        if default is MISSING:
            try:
                current = getattr(current, name)
            except AttributeError as e:
                msg = f"'{type(obj).__name__}' object has no attribute path '{path}', since {e}"
                raise AttributeError(msg) from e
        else:
            current = getattr(current, name, MISSING)
            if current is MISSING:
                return default
        if current is None:
            return None
    return current
  \<close>
\<close>

fun getattr_loop ::
  "default_arg \<Rightarrow> pyval \<Rightarrow> path_arg \<Rightarrow> pyval \<Rightarrow> string list \<Rightarrow> error + pyval" where
  "getattr_loop d obj path current [] = Inr current"
| "getattr_loop d obj path current (name # names) =
     (case d of
        MISSING \<Rightarrow>
          (case getattr current name of
             None \<Rightarrow>
               Inl (AttributeError
                      (path_error_msg obj path (no_attribute (type_name current) name)))
           | Some v \<Rightarrow> if v = PyNone then Inr PyNone else getattr_loop d obj path v names)
      | Default dv \<Rightarrow>
          (case getattr current name of
             None \<Rightarrow> Inr dv
           | Some v \<Rightarrow> if v = PyNone then Inr PyNone else getattr_loop d obj path v names))"

definition getattr_path :: "pyval \<Rightarrow> path_arg \<Rightarrow> default_arg \<Rightarrow> error + pyval" where
  "getattr_path obj path d =
     (if path = PathStr [] then Inr obj
      else getattr_loop d obj path obj (ap_parts (str_to_path path)))"

text \<open>
  The plain attribute chain \<open>obj.a.b.c\<close> that the docstring of \<open>getattr_path\<close> compares it
  with: every attribute is present and no value before the last one is \<open>None\<close>.
\<close>

fun attr_chain :: "pyval \<Rightarrow> string list \<Rightarrow> pyval option" where
  "attr_chain cur [] = Some cur"
| "attr_chain cur (name # names) =
     (case getattr cur name of
        None \<Rightarrow> None
      | Some v \<Rightarrow> if v = PyNone \<and> names \<noteq> [] then None else attr_chain v names)"

section \<open>The operators (\<open>traverse_path/compare.py\<close>)\<close>

subsection \<open>Strings\<close>

definition ascii_lowercase :: string where
  "ascii_lowercase = ''abcdefghijklmnopqrstuvwxyz''"

definition ascii_uppercase :: string where
  "ascii_uppercase = ''ABCDEFGHIJKLMNOPQRSTUVWXYZ''"

definition ascii_digits :: string where
  "ascii_digits = ''0123456789''"

text \<open>\<open>str.upper()\<close> and \<open>str.lower()\<close>.\<close>

definition upper :: "string \<Rightarrow> string" where
  "upper s =
     map (\<lambda>c. case map_of (zip ascii_lowercase ascii_uppercase) c of
                 None \<Rightarrow> c | Some u \<Rightarrow> u) s"

definition lower :: "string \<Rightarrow> string" where
  "lower s =
     map (\<lambda>c. case map_of (zip ascii_uppercase ascii_lowercase) c of
                 None \<Rightarrow> c | Some l \<Rightarrow> l) s"

text \<open>\<open>value.startswith(rhs)\<close>, \<open>value.endswith(rhs)\<close> and \<open>rhs in value\<close> on strings.\<close>

definition str_startswith :: "string \<Rightarrow> string \<Rightarrow> bool" where
  "str_startswith s r = (take (length r) s = r)"

definition str_endswith :: "string \<Rightarrow> string \<Rightarrow> bool" where
  "str_endswith s r = (length r \<le> length s \<and> drop (length s - length r) s = r)"

fun str_contains :: "string \<Rightarrow> string \<Rightarrow> bool" where
  "str_contains [] r = (r = [])"
| "str_contains (c # cs) r = (str_startswith (c # cs) r \<or> str_contains cs r)"

text \<open>\<open>a < b\<close> on strings: by code points, a proper prefix being smaller.\<close>

fun str_less :: "string \<Rightarrow> string \<Rightarrow> bool" where
  "str_less [] [] = False"
| "str_less [] (y # ys) = True"
| "str_less (x # xs) [] = False"
| "str_less (x # xs) (y # ys) =
     (if x = y then str_less xs ys else (of_char x :: nat) < of_char y)"

subsection \<open>Comparisons of values\<close>

datatype ordop = OpGT | OpGE | OpLT | OpLE

fun ord_int :: "ordop \<Rightarrow> int \<Rightarrow> int \<Rightarrow> bool" where
  "ord_int OpGT a b = (a > b)"
| "ord_int OpGE a b = (a \<ge> b)"
| "ord_int OpLT a b = (a < b)"
| "ord_int OpLE a b = (a \<le> b)"

fun ord_str :: "ordop \<Rightarrow> string \<Rightarrow> string \<Rightarrow> bool" where
  "ord_str OpGT a b = str_less b a"
| "ord_str OpGE a b = (\<not> str_less a b)"
| "ord_str OpLT a b = str_less a b"
| "ord_str OpLE a b = (\<not> str_less b a)"

text \<open>
  \<open>value > rhs\<close> and its siblings.  Integers and strings are ordered among themselves;
  two lists are compared at the first position where they differ, or by length when
  one is a prefix of the other; every other pair of operands raises \<open>TypeError\<close>.
\<close>

fun py_ord :: "ordop \<Rightarrow> pyval \<Rightarrow> pyval \<Rightarrow> error + bool"
  and py_ord_list :: "ordop \<Rightarrow> pyval list \<Rightarrow> pyval list \<Rightarrow> error + bool" where
  "py_ord c (PyInt a) (PyInt b) = Inr (ord_int c a b)"
| "py_ord c (PyStr a) (PyStr b) = Inr (ord_str c a b)"
| "py_ord c (PyList xs) (PyList ys) = py_ord_list c xs ys"
| "py_ord c _ _ = Inl TypeError"
| "py_ord_list c [] ys = Inr (ord_int c 0 (int (length ys)))"
| "py_ord_list c (x # xs) [] = Inr (ord_int c 1 0)"
| "py_ord_list c (x # xs) (y # ys) =
     (if x = y then py_ord_list c xs ys else py_ord c x y)"

text \<open>\<open>x in container\<close>: a substring test on strings, membership on lists.\<close>

fun py_in :: "pyval \<Rightarrow> pyval \<Rightarrow> error + bool" where
  "py_in (PyStr a) (PyStr s) = Inr (str_contains s a)"
| "py_in x (PyList xs) = Inr (x \<in> set xs)"
| "py_in x c = Inl TypeError"

text \<open>The method call \<open>v.lower()\<close>: only a string has the method.\<close>

fun py_lower :: "pyval \<Rightarrow> error + string" where
  "py_lower (PyStr s) = Inr (lower s)"
| "py_lower v = Inl (AttributeError (no_attribute (type_name v) ''lower''))"

subsection \<open>The fourteen comparison functions\<close>

definition equals :: "pyval \<Rightarrow> pyval \<Rightarrow> error + bool" where
  "equals v rhs = Inr (v = rhs)"

definition not_equal :: "pyval \<Rightarrow> pyval \<Rightarrow> error + bool" where
  "not_equal v rhs = Inr (v \<noteq> rhs)"

definition greater_than :: "pyval \<Rightarrow> pyval \<Rightarrow> error + bool" where
  "greater_than v rhs = py_ord OpGT v rhs"

definition greater_than_or_equal :: "pyval \<Rightarrow> pyval \<Rightarrow> error + bool" where
  "greater_than_or_equal v rhs = py_ord OpGE v rhs"

definition less_than :: "pyval \<Rightarrow> pyval \<Rightarrow> error + bool" where
  "less_than v rhs = py_ord OpLT v rhs"

definition less_than_or_equal_to :: "pyval \<Rightarrow> pyval \<Rightarrow> error + bool" where
  "less_than_or_equal_to v rhs = py_ord OpLE v rhs"

text \<open>The function \<open>in_\<close> of the source.\<close>

definition in_op :: "pyval \<Rightarrow> pyval \<Rightarrow> error + bool" where
  "in_op v rhs = py_in v rhs"

definition contains :: "pyval \<Rightarrow> pyval \<Rightarrow> error + bool" where
  "contains v rhs = py_in rhs v"

text \<open>\<open>rhs.lower() in value.lower()\<close>: the left operand of \<open>in\<close> is evaluated first.\<close>

definition icontains :: "pyval \<Rightarrow> pyval \<Rightarrow> error + bool" where
  "icontains v rhs =
     (case py_lower rhs of
        Inl e \<Rightarrow> Inl e
      | Inr r \<Rightarrow> (case py_lower v of Inl e \<Rightarrow> Inl e | Inr s \<Rightarrow> Inr (str_contains s r)))"

text \<open>
  \<open>value.startswith(rhs)\<close>: looking the method up fails on a value that is no string, and
  the method raises \<open>TypeError\<close> on an argument that is no string.
\<close>

fun startswith :: "pyval \<Rightarrow> pyval \<Rightarrow> error + bool" where
  "startswith (PyStr s) (PyStr r) = Inr (str_startswith s r)"
| "startswith (PyStr s) rhs = Inl TypeError"
| "startswith v rhs = Inl (AttributeError (no_attribute (type_name v) ''startswith''))"

definition istartswith :: "pyval \<Rightarrow> pyval \<Rightarrow> error + bool" where
  "istartswith v rhs =
     (case py_lower v of
        Inl e \<Rightarrow> Inl e
      | Inr s \<Rightarrow> (case py_lower rhs of Inl e \<Rightarrow> Inl e | Inr r \<Rightarrow> Inr (str_startswith s r)))"

fun endswith :: "pyval \<Rightarrow> pyval \<Rightarrow> error + bool" where
  "endswith (PyStr s) (PyStr r) = Inr (str_endswith s r)"
| "endswith (PyStr s) rhs = Inl TypeError"
| "endswith v rhs = Inl (AttributeError (no_attribute (type_name v) ''endswith''))"

definition iendswith :: "pyval \<Rightarrow> pyval \<Rightarrow> error + bool" where
  "iendswith v rhs =
     (case py_lower v of
        Inl e \<Rightarrow> Inl e
      | Inr s \<Rightarrow> (case py_lower rhs of Inl e \<Rightarrow> Inl e | Inr r \<Rightarrow> Inr (str_endswith s r)))"

definition iequal :: "pyval \<Rightarrow> pyval \<Rightarrow> error + bool" where
  "iequal v rhs =
     (case py_lower v of
        Inl e \<Rightarrow> Inl e
      | Inr s \<Rightarrow> (case py_lower rhs of Inl e \<Rightarrow> Inl e | Inr r \<Rightarrow> Inr (s = r)))"

subsection \<open>The enumeration \<open>Operators\<close>\<close>

datatype Operators =
    EQ | NE | GT | GE | LT | LE | IN
  | CONTAINS | ICONTAINS | STARTSWITH | ISTARTSWITH | ENDSWITH | IENDSWITH | IEQUAL

text \<open>\<open>Operators.evaluate\<close>: \<open>self.value(value, rhs)\<close>.\<close>

fun evaluate :: "Operators \<Rightarrow> pyval \<Rightarrow> pyval \<Rightarrow> error + bool" where
  "evaluate EQ v rhs = equals v rhs"
| "evaluate NE v rhs = not_equal v rhs"
| "evaluate GT v rhs = greater_than v rhs"
| "evaluate GE v rhs = greater_than_or_equal v rhs"
| "evaluate LT v rhs = less_than v rhs"
| "evaluate LE v rhs = less_than_or_equal_to v rhs"
| "evaluate IN v rhs = in_op v rhs"
| "evaluate CONTAINS v rhs = contains v rhs"
| "evaluate ICONTAINS v rhs = icontains v rhs"
| "evaluate STARTSWITH v rhs = startswith v rhs"
| "evaluate ISTARTSWITH v rhs = istartswith v rhs"
| "evaluate ENDSWITH v rhs = endswith v rhs"
| "evaluate IENDSWITH v rhs = iendswith v rhs"
| "evaluate IEQUAL v rhs = iequal v rhs"

text \<open>The members of the enumeration by name, in the order of their declaration.\<close>

definition Operators_members :: "(string \<times> Operators) list" where
  "Operators_members =
     [(''EQ'', EQ), (''NE'', NE), (''GT'', GT), (''GE'', GE), (''LT'', LT), (''LE'', LE),
      (''IN'', IN), (''CONTAINS'', CONTAINS), (''ICONTAINS'', ICONTAINS),
      (''STARTSWITH'', STARTSWITH), (''ISTARTSWITH'', ISTARTSWITH),
      (''ENDSWITH'', ENDSWITH), (''IENDSWITH'', IENDSWITH), (''IEQUAL'', IEQUAL)]"

text \<open>\<open>Operators[name]\<close>: the member of that name, or \<open>KeyError\<close>.\<close>

definition Operators_getitem :: "string \<Rightarrow> error + Operators" where
  "Operators_getitem name =
     (case map_of Operators_members name of
        None \<Rightarrow> Inl (KeyError name)
      | Some operator \<Rightarrow> Inr operator)"

section \<open>The searchable collection (\<open>traverse_path/pydantic.py\<close>)\<close>

text \<open>
  \<open>SearchBase\<close> wraps the list \<open>root\<close>; its elements are instances of \<open>ClassBase\<close>.  The
  methods that assign \<open>self.root\<close> return their result together with the collection after
  the call.
\<close>

record SearchBase =
  root :: "pyval list"

text \<open>The keyword arguments \<open>**kwargs\<close>, in the order the caller wrote them.\<close>

type_synonym kwargs = "(string \<times> pyval) list"

text \<open>
  \<open>_split_kwarg\<close>: more than one keyword is refused; \<open>next(iter(kwargs.items()))\<close> raises
  \<open>StopIteration\<close> when there is none.
\<close>

definition split_kwarg :: "kwargs \<Rightarrow> error + string \<times> pyval" where
  "split_kwarg kw =
     (if length kw > 1 then Inl (ValueError ''only one kwarg is allowed beyond default'')
      else (case kw of [] \<Rightarrow> Inl StopIteration | item # _ \<Rightarrow> Inr item))"

text \<open>The character class \<open>\w\<close>.\<close>

definition is_word_char :: "char \<Rightarrow> bool" where
  "is_word_char c = (c \<in> set (ascii_lowercase @ ascii_uppercase @ ascii_digits @ ''_''))"

text \<open>
  \<open>re.compile(r"^(\w+)_([^_]+)$").search(lhs)\<close>: the pattern is anchored at both ends, so
  a match splits the whole key at one of its underscores into the two groups.  The greedy
  group \<open>\w+\<close> is tried from the longest candidate down, hence from the rightmost underscore
  to the left; the first split whose left part is a non-empty run of word characters and
  whose right part is a non-empty run without an underscore is the match.
\<close>

definition re_search :: "string \<Rightarrow> (string \<times> string) option" where
  "re_search lhs =
     find (\<lambda>(g1, g2). g1 \<noteq> [] \<and> list_all is_word_char g1 \<and>
                       g2 \<noteq> [] \<and> list_all (\<lambda>c. c \<noteq> CHR ''_'') g2)
       (map (\<lambda>i. (take i lhs, drop (Suc i) lhs))
          (filter (\<lambda>i. lhs ! i = CHR ''_'') (rev [0..<length lhs])))"

text \<open>
  \<open>_split_lhs\<close>:
  \<^verbatim>\<open>
    matches = match_pattern.search(lhs)
    if not matches:
        raise ValueError(f"invalid path: {lhs}")
    path = AttrPath.str_to_path(matches.group(1))
    operator_name = matches.group(2).upper()
    operator = Operators[operator_name]
    return path, operator
  \<close>
\<close>

definition split_lhs :: "string \<Rightarrow> error + AttrPath \<times> Operators" where
  "split_lhs lhs =
     (case re_search lhs of
        None \<Rightarrow> Inl (ValueError (''invalid path: '' @ lhs))
      | Some (g1, g2) \<Rightarrow>
          (let path = str_to_path (PathStr g1);
               operator_name = upper g2
           in case Operators_getitem operator_name of
                Inl e \<Rightarrow> Inl e
              | Inr operator \<Rightarrow> Inr (path, operator)))"

text \<open>\<open>_get_compare_tuple\<close>: the path, the right operand and the operator of the call.\<close>

definition get_compare_tuple :: "kwargs \<Rightarrow> error + AttrPath \<times> pyval \<times> Operators" where
  "get_compare_tuple kw =
     (case split_kwarg kw of
        Inl e \<Rightarrow> Inl e
      | Inr (lhs, rhs) \<Rightarrow>
          (case split_lhs lhs of
             Inl e \<Rightarrow> Inl e
           | Inr (path, operator) \<Rightarrow> Inr (path, rhs, operator)))"

text \<open>
  \<open>_compare\<close>: \<open>item.getattr_path(lhs)\<close> is \<open>getattr_path(item, lhs, default=MISSING)\<close>, the
  raising variant, called with the \<open>AttrPath\<close>.
\<close>

definition compare :: "pyval \<Rightarrow> AttrPath \<Rightarrow> pyval \<Rightarrow> Operators \<Rightarrow> error + bool" where
  "compare item lhs rhs operator =
     (case getattr_path item (PathObj lhs) MISSING of
        Inl e \<Rightarrow> Inl e
      | Inr v \<Rightarrow> evaluate operator v rhs)"

text \<open>
  The list comprehension \<open>[item for item in self.root if test(item)]\<close>: the elements are
  tested from left to right, and the first test that raises ends the comprehension.
\<close>

fun comprehension :: "('a \<Rightarrow> error + bool) \<Rightarrow> 'a list \<Rightarrow> error + 'a list" where
  "comprehension test [] = Inr []"
| "comprehension test (item # items) =
     (case test item of
        Inl e \<Rightarrow> Inl e
      | Inr b \<Rightarrow>
          (case comprehension test items of
             Inl e \<Rightarrow> Inl e
           | Inr kept \<Rightarrow> Inr (if b then item # kept else kept)))"

text \<open>
  \<open>filter\<close> and \<open>exclude\<close>: \<open>self.root\<close> is assigned once the comprehension has returned.
  Both return \<open>self\<close>, which is the collection after the call.
\<close>

definition SearchBase_filter :: "kwargs \<Rightarrow> SearchBase \<Rightarrow> (error + unit) \<times> SearchBase" where
  "SearchBase_filter kw self =
     (case get_compare_tuple kw of
        Inl e \<Rightarrow> (Inl e, self)
      | Inr (lhs, rhs, operator) \<Rightarrow>
          (case comprehension (\<lambda>item. compare item lhs rhs operator) (root self) of
             Inl e \<Rightarrow> (Inl e, self)
           | Inr kept \<Rightarrow> (Inr (), self\<lparr>root := kept\<rparr>)))"

definition negate :: "error + bool \<Rightarrow> error + bool" where
  "negate r = (case r of Inl e \<Rightarrow> Inl e | Inr b \<Rightarrow> Inr (\<not> b))"

definition SearchBase_exclude :: "kwargs \<Rightarrow> SearchBase \<Rightarrow> (error + unit) \<times> SearchBase" where
  "SearchBase_exclude kw self =
     (case get_compare_tuple kw of
        Inl e \<Rightarrow> (Inl e, self)
      | Inr (lhs, rhs, operator) \<Rightarrow>
          (case comprehension (\<lambda>item. negate (compare item lhs rhs operator)) (root self) of
             Inl e \<Rightarrow> (Inl e, self)
           | Inr kept \<Rightarrow> (Inr (), self\<lparr>root := kept\<rparr>)))"

text \<open>
  \<open>get\<close>:
  \<^verbatim>\<open>
    items_list = self.filter(**kwargs)
    if len(items_list) != 1:
        return default
    return items_list[0]
  \<close>
  \<open>items_list\<close> is \<open>self\<close>; its length and its first element are those of \<open>self.root\<close>.
\<close>

definition SearchBase_get ::
  "pyval \<Rightarrow> kwargs \<Rightarrow> SearchBase \<Rightarrow> (error + pyval) \<times> SearchBase" where
  "SearchBase_get dflt kw self =
     (case SearchBase_filter kw self of
        (Inl e, items_list) \<Rightarrow> (Inl e, items_list)
      | (Inr _, items_list) \<Rightarrow>
          (if length (root items_list) \<noteq> 1 then (Inr dflt, items_list)
           else (Inr (root items_list ! 0), items_list)))"

section \<open>The records (\<open>models.py\<close>)\<close>

subsection \<open>Raw input and field validation\<close>

text \<open>
  What a constructor receives: the nested dictionaries, lists and strings that the parsed
  XML consists of, integers and \<open>None\<close>.  A dictionary is the list of its items.
\<close>

datatype raw =
    RNone
  | RInt int
  | RStr string
  | RList "raw list"
  | RDict "(string \<times> raw) list"

text \<open>
  The alias generator of \<open>ClassBase\<close>: a field without an alias of its own is looked up
  under \<open>alias_choices\<close> of its name, the first spelling present in the input winning.
\<close>

definition remove_underscore :: "string \<Rightarrow> string" where
  "remove_underscore name = filter (\<lambda>c. c \<noteq> CHR ''_'') name"

definition add_attribute_symbol :: "string \<Rightarrow> string" where
  "add_attribute_symbol name = CHR ''@'' # name"

definition add_symbol_remove_underscore :: "string \<Rightarrow> string" where
  "add_symbol_remove_underscore name = add_attribute_symbol (remove_underscore name)"

definition alias_choices :: "string \<Rightarrow> string list" where
  "alias_choices name = [remove_underscore name, add_symbol_remove_underscore name]"

fun lookup_choices :: "string list \<Rightarrow> (string \<times> raw) list \<Rightarrow> raw option" where
  "lookup_choices [] d = None"
| "lookup_choices (a # as) d =
     (case map_of d a of None \<Rightarrow> lookup_choices as d | Some v \<Rightarrow> Some v)"

text \<open>
  The validation of a field of type \<open>str\<close> and of type \<open>list[T]\<close>.  The list validator
  takes a list and validates its elements in order; a dictionary, a string, an integer
  and \<open>None\<close> are no list.  A failed validation is a \<open>ValidationError\<close> with one line for
  the failure.
\<close>

fun validate_str :: "raw \<Rightarrow> error + string" where
  "validate_str (RStr s) = Inr s"
| "validate_str v = Inl (ValidationError [''Input should be a valid string''])"

fun validate_each :: "(raw \<Rightarrow> error + 'a) \<Rightarrow> raw list \<Rightarrow> error + 'a list" where
  "validate_each validate [] = Inr []"
| "validate_each validate (v # vs) =
     (case validate v of
        Inl e \<Rightarrow> Inl e
      | Inr x \<Rightarrow> (case validate_each validate vs of Inl e \<Rightarrow> Inl e | Inr xs \<Rightarrow> Inr (x # xs)))"

fun validate_list :: "(raw \<Rightarrow> error + 'a) \<Rightarrow> raw \<Rightarrow> error + 'a list" where
  "validate_list validate (RList vs) = validate_each validate vs"
| "validate_list validate v = Inl (ValidationError [''Input should be a valid list''])"

text \<open>
  \<open>AfterValidator(f)\<close>: \<open>f\<close> is called with the validated value, what it returns is the
  value of the field, and a \<open>ValueError\<close> it raises becomes a \<open>ValidationError\<close>.
\<close>

definition after_validator :: "('a \<Rightarrow> error + 'b) \<Rightarrow> 'a \<Rightarrow> error + 'b" where
  "after_validator f v =
     (case f v of
        Inl (ValueError m) \<Rightarrow> Inl (ValidationError [''Value error, '' @ m])
      | Inl e \<Rightarrow> Inl e
      | Inr r \<Rightarrow> Inr r)"

subsection \<open>\<open>ThingName\<close>\<close>

datatype NameType = PRIMARY | ALTERNATE

record ThingName =
  name_type :: NameType
  tn_value :: string

text \<open>The values of the string enumeration are the lower-cased names of its members.\<close>

fun validate_NameType :: "raw \<Rightarrow> error + NameType" where
  "validate_NameType (RStr s) =
     (if s = ''primary'' then Inr PRIMARY
      else if s = ''alternate'' then Inr ALTERNATE
      else Inl (ValidationError [''Input should be primary or alternate'']))"
| "validate_NameType v = Inl (ValidationError [''Input should be primary or alternate''])"

text \<open>
  \<open>name_type\<close> has the alias \<open>@type\<close> of its own; \<open>value\<close> is looked up under the generated
  choices.  Of several failing fields the first one is reported.
\<close>

fun validate_ThingName :: "raw \<Rightarrow> error + ThingName" where
  "validate_ThingName (RDict d) =
     (case map_of d ''@type'' of
        None \<Rightarrow> Inl (ValidationError [''Field required''])
      | Some t \<Rightarrow>
          (case validate_NameType t of
             Inl e \<Rightarrow> Inl e
           | Inr nt \<Rightarrow>
               (case lookup_choices (alias_choices ''value'') d of
                  None \<Rightarrow> Inl (ValidationError [''Field required''])
                | Some v \<Rightarrow>
                    (case validate_str v of
                       Inl e \<Rightarrow> Inl e
                     | Inr s \<Rightarrow> Inr \<lparr>name_type = nt, tn_value = s\<rparr>))))"
| "validate_ThingName v = Inl (ValidationError [''Input should be a valid dictionary''])"

subsection \<open>\<open>not_empty\<close> and the field \<open>name\<close> of \<open>Thing\<close>\<close>

text \<open>
  \<^verbatim>\<open>
    def not_empty(value: Sized) -> Sized:
        if len(value) == 0:
            raise ValueError("value is empty")
        return value
  \<close>
\<close>

definition not_empty :: "'a list \<Rightarrow> error + 'a list" where
  "not_empty v = (if length v = 0 then Inl (ValueError ''value is empty'') else Inr v)"

text \<open>\<open>name: Annotated[list[ThingName], AfterValidator(not_empty)]\<close>.\<close>

definition validate_name_field :: "raw \<Rightarrow> error + ThingName list" where
  "validate_name_field v =
     (case validate_list validate_ThingName v of
        Inl e \<Rightarrow> Inl e
      | Inr names \<Rightarrow> after_validator not_empty names)"

text \<open>
  \<open>Thing(**item_data)\<close>.  The field \<open>name\<close> is validated as above.  The other fields are
  validated independently of it; \<open>others\<close> is the outcome of their validation, and the
  construction succeeds when no field fails.  The lines of a failure are those of all
  failing fields.
\<close>

record 'o Thing =
  thing_name :: "ThingName list"
  thing_others :: 'o

fun error_lines :: "error \<Rightarrow> string list" where
  "error_lines (ValidationError ls) = ls"
| "error_lines e = []"

definition Thing_init :: "(error + 'o) \<Rightarrow> (string \<times> raw) list \<Rightarrow> error + 'o Thing" where
  "Thing_init others item_data =
     (let name_result =
            (case lookup_choices (alias_choices ''name'') item_data of
               None \<Rightarrow> Inl (ValidationError [''Field required''])
             | Some v \<Rightarrow> validate_name_field v)
      in case (others, name_result) of
           (Inr o_fields, Inr names) \<Rightarrow> Inr \<lparr>thing_name = names, thing_others = o_fields\<rparr>
         | (Inl e, Inr names) \<Rightarrow> Inl (ValidationError (error_lines e))
         | (Inr o_fields, Inl e) \<Rightarrow> Inl (ValidationError (error_lines e))
         | (Inl e1, Inl e2) \<Rightarrow> Inl (ValidationError (error_lines e1 @ error_lines e2)))"

subsection \<open>\<open>YearPublished\<close>\<close>

text \<open>\<open>str(n)\<close> for an integer.\<close>

fun str_nat :: "nat \<Rightarrow> string" where
  "str_nat n =
     (if n < 10 then [ascii_digits ! n]
      else str_nat (n div 10) @ [ascii_digits ! (n mod 10)])"

definition str_int :: "int \<Rightarrow> string" where
  "str_int i = (if i < 0 then CHR ''-'' # str_nat (nat (- i)) else str_nat (nat i))"

text \<open>
  \<^verbatim>\<open>
    def is_not_future(value: int | None) -> None:
        if value and value > dt.now(tz=UTC).year:
            raise ValueError(f"{value} is in the future")
  \<close>
  \<open>now\<close> is the year of the clock, \<open>dt.now(tz=UTC).year\<close>.  \<open>None\<close> and \<open>0\<close> are false as a
  condition.  The function has no \<open>return\<close>: a call that does not raise returns \<open>None\<close>.
\<close>

definition is_not_future :: "int \<Rightarrow> int option \<Rightarrow> error + int option" where
  "is_not_future now v =
     (case v of
        None \<Rightarrow> Inr None
      | Some n \<Rightarrow>
          (if n \<noteq> 0 \<and> n > now then Inl (ValueError (str_int n @ '' is in the future''))
           else Inr None))"

text \<open>
  The validation of a field of type \<open>int\<close> on the argument of a call \<open>YearPublished(value=v)\<close>
  with \<open>v\<close> an integer or \<open>None\<close>: \<open>None\<close> is no integer.
\<close>

fun validate_int :: "int option \<Rightarrow> error + int" where
  "validate_int None = Inl (ValidationError [''Input should be a valid integer''])"
| "validate_int (Some n) = Inr n"

text \<open>
  \<open>value: Annotated[int, AfterValidator(is_not_future)]\<close>: the field holds what the
  validator returned.
\<close>

record YearPublished =
  yp_value :: "int option"

definition YearPublished_init :: "int \<Rightarrow> int option \<Rightarrow> error + YearPublished" where
  "YearPublished_init now v =
     (case validate_int v of
        Inl e \<Rightarrow> Inl e
      | Inr n \<Rightarrow>
          (case after_validator (is_not_future now) (Some n) of
             Inl e \<Rightarrow> Inl e
           | Inr r \<Rightarrow> Inr \<lparr>yp_value = r\<rparr>))"

section \<open>Notions of the specification and example data\<close>

text \<open>
  The trailing token of a predicate key, the text after its last underscore
  (\<open>key.split("_")[-1]\<close>, as \<open>Operators.get_operator\<close> takes it).
\<close>

definition last_token :: "string \<Rightarrow> string" where
  "last_token lhs = rev (takeWhile (\<lambda>c. c \<noteq> CHR ''_'') (rev lhs))"

text \<open>Two links, a collection of them, and a catalog item for the examples.\<close>

abbreviation link_a :: pyval where
  "link_a \<equiv>
     PyObj ''Link''
       [(''id'', PyInt 63306), (''link_type'', PyStr ''boardgameexpansion''),
        (''value'', PyStr ''Spider Bunny Promo Card'')]"

abbreviation link_b :: pyval where
  "link_b \<equiv>
     PyObj ''Link''
       [(''id'', PyInt 2), (''link_type'', PyStr ''boardgamepublisher''),
        (''value'', PyStr ''Piatnik'')]"

abbreviation links :: SearchBase where
  "links \<equiv> \<lparr>root = [link_a, link_b]\<rparr>"

abbreviation example_thing :: pyval where
  "example_thing \<equiv>
     PyObj ''Thing''
       [(''id'', PyInt 7),
        (''year_published'', PyNone),
        (''name'', PyObj ''ThingName'' [(''value'', PyStr ''Catan'')])]"



section \<open>Properties of path expressions\<close>

lemma path_as_parts_nonempty: "path_as_parts s \<noteq> []"
  by (induction s rule: path_as_parts.induct) (auto split: list.splits)

lemma mset_rotate: "mset (rotate n xs) = mset xs"
proof -
  let ?k = "n mod length xs"
  have "mset (rotate n xs) = mset (drop ?k xs) + mset (take ?k xs)"
    by (simp add: rotate_drop_take)
  also have "\<dots> = mset (take ?k xs @ drop ?k xs)"
    by (simp only: mset_append add.commute)
  also have "\<dots> = mset xs"
    by (simp only: append_take_drop_id)
  finally show ?thesis .
qed

lemma deque_rotate_mset: "mset (deque_rotate n xs) = mset xs"
  by (simp add: deque_rotate_def mset_rotate)

lemma deque_rotate_snoc: "deque_rotate 1 (xs @ [x]) = x # xs"
proof -
  have "(- 1) mod int (Suc (length xs)) = int (length xs)"
    by (simp add: zmod_minus1)
  then have "deque_rotate 1 (xs @ [x]) = rotate (length xs) (xs @ [x])"
    by (simp add: deque_rotate_def)
  also have "\<dots> = x # xs"
    by (simp add: rotate_append)
  finally show ?thesis .
qed

text \<open>
  C9, as the specification states it: the first pop on a path expression built from the
  empty string fails.  It does not: splitting the empty string gives one empty segment,
  and both pops return it.
\<close>

theorem empty_string_path_pop_returns_segment:
  "fst (popleft (AttrPath_init [])) = Inr [] \<and> fst (pop_back (AttrPath_init [])) = Inr []"
  by (simp add: AttrPath_init_def popleft_def pop_back_def pop_def deque_rotate_def Let_def)

text \<open>
  C9, amended: on a path without segments \<open>popleft\<close> and \<open>pop\<close> raise \<open>IndexError\<close> and leave
  the path as it was; \<open>popleft\<close> returns the first segment and leaves the others in
  order; \<open>pop\<close> returns the last segment and leaves the others; a path built from the
  empty string holds one empty segment, which its first pop returns, leaving no segment.
\<close>

theorem pop_ends:
  "popleft \<lparr>ap_value = v, ap_parts = []\<rparr> = (Inl IndexError, \<lparr>ap_value = v, ap_parts = []\<rparr>)
   \<and> pop_back \<lparr>ap_value = v, ap_parts = []\<rparr> = (Inl IndexError, \<lparr>ap_value = v, ap_parts = []\<rparr>)
   \<and> popleft \<lparr>ap_value = v, ap_parts = x # xs\<rparr> = (Inr x, \<lparr>ap_value = v, ap_parts = xs\<rparr>)
   \<and> fst (pop_back \<lparr>ap_value = v, ap_parts = xs @ [x]\<rparr>) = Inr x
   \<and> mset (ap_parts (snd (pop_back \<lparr>ap_value = v, ap_parts = xs @ [x]\<rparr>))) = mset xs
   \<and> ap_parts (AttrPath_init []) = [[]]
   \<and> popleft (AttrPath_init []) = (Inr [], \<lparr>ap_value = [], ap_parts = []\<rparr>)
   \<and> pop_back (AttrPath_init []) = (Inr [], \<lparr>ap_value = [], ap_parts = []\<rparr>)"
  by (simp add: popleft_def pop_back_def pop_def Let_def deque_rotate_snoc deque_rotate_mset
      AttrPath_init_def)  (simp add: deque_rotate_def)

text \<open>
  The order in which \<open>pop\<close> leaves the other segments: the rotation after the removal
  moves the first of them to the right end.
\<close>

lemma pop_back_rotates_rest:
  "pop_back (AttrPath_init ''a__b__c'')
     = (Inr ''c'', \<lparr>ap_value = ''a__b__c'', ap_parts = [''b'', ''a'']\<rparr>)"
  by (simp add: AttrPath_init_def pop_back_def pop_def popleft_def Let_def deque_rotate_def
      rotate_def eval_nat_numeral)

section \<open>Properties of the publication year\<close>

text \<open>
  C5: every publication-year wrapper that was built holds \<open>None\<close> as its value, since
  the field takes what \<open>is_not_future\<close> returns.
\<close>

theorem YearPublished_value_is_None:
  "YearPublished_init now v = Inr y \<Longrightarrow> yp_value y = None"
  by (auto simp: YearPublished_init_def after_validator_def is_not_future_def
      split: sum.splits option.splits if_splits error.splits)

theorem YearPublished_value_is_None_witness:
  "YearPublished_init 2026 (Some 2020) = Inr \<lparr>yp_value = None\<rparr>
   \<and> yp_value \<lparr>yp_value = None\<rparr> = None"
proof -
  have h: "YearPublished_init 2026 (Some 2020) = Inr \<lparr>yp_value = None\<rparr>"
    by (simp add: YearPublished_init_def after_validator_def is_not_future_def)
  show ?thesis
    using h YearPublished_value_is_None [OF h] by simp
qed

text \<open>
  C4, as the specification states it: a construction with a null value succeeds.  It
  fails: the field is declared \<open>int\<close>, and \<open>None\<close> is no integer.
\<close>

theorem YearPublished_null_fails:
  "YearPublished_init 2026 None = Inl (ValidationError [''Input should be a valid integer''])"
  by (simp add: YearPublished_init_def)

text \<open>
  C4, amended: with the year after the current one the construction fails, with the
  current year it succeeds, with a null value it fails; \<open>is_not_future\<close> itself skips its
  check on a null value.
\<close>

theorem YearPublished_future_check:
  "1 \<le> now \<Longrightarrow>
     isl (YearPublished_init now (Some (now + 1)))
     \<and> (\<exists>y. YearPublished_init now (Some now) = Inr y)
     \<and> isl (YearPublished_init now None)
     \<and> is_not_future now None = Inr None"
  by (simp add: YearPublished_init_def after_validator_def is_not_future_def)

theorem YearPublished_future_check_witness:
  "(1::int) \<le> 2026
     \<and> isl (YearPublished_init 2026 (Some 2027))
     \<and> (\<exists>y. YearPublished_init 2026 (Some 2026) = Inr y)
     \<and> isl (YearPublished_init 2026 None)
     \<and> is_not_future 2026 None = Inr None"
proof -
  have h: "(1::int) \<le> 2026" by simp
  show ?thesis
    using h YearPublished_future_check [OF h] by simp
qed

section \<open>Properties of path resolution\<close>

lemma getattr_loop_none:
  "pre \<noteq> [] \<Longrightarrow> attr_chain cur pre = Some PyNone \<Longrightarrow>
   getattr_loop d obj path cur (pre @ rest) = Inr PyNone"
proof (induction pre arbitrary: cur)
  case Nil
  then show ?case by simp
next
  case (Cons name pre)
  from Cons.prems(2) obtain v where v: "getattr cur name = Some v"
    and c: "\<not> (v = PyNone \<and> pre \<noteq> [])" "attr_chain v pre = Some PyNone"
    by (auto split: option.splits if_splits)
  show ?case
  proof (cases "pre = []")
    case True
    with c have "v = PyNone" by simp
    with v show ?thesis by (cases d) simp_all
  next
    case False
    with c have nn: "v \<noteq> PyNone" by simp
    from Cons.IH [OF False c(2)] have "getattr_loop d obj path v (pre @ rest) = Inr PyNone" .
    with v nn show ?thesis by (cases d) simp_all
  qed
qed

lemma getattr_loop_absent:
  "attr_chain cur pre = Some c \<Longrightarrow> pre = [] \<or> c \<noteq> PyNone \<Longrightarrow> getattr c name = None \<Longrightarrow>
   getattr_loop d obj path cur (pre @ name # rest)
     = (case d of
          MISSING \<Rightarrow> Inl (AttributeError (path_error_msg obj path (no_attribute (type_name c) name)))
        | Default dv \<Rightarrow> Inr dv)"
proof (induction pre arbitrary: cur)
  case Nil
  then show ?case by (cases d) simp_all
next
  case (Cons n pre)
  from Cons.prems(1) obtain v where v: "getattr cur n = Some v"
    and c: "\<not> (v = PyNone \<and> pre \<noteq> [])" "attr_chain v pre = Some c"
    by (auto split: option.splits if_splits)
  from Cons.prems(2) have cn: "c \<noteq> PyNone" by simp
  have nn: "v \<noteq> PyNone"
  proof
    assume "v = PyNone"
    with c have "pre = []" by simp
    with c \<open>v = PyNone\<close> cn show False by simp
  qed
  from cn have "pre = [] \<or> c \<noteq> PyNone" by simp
  from Cons.IH [OF c(2) this Cons.prems(3)] v nn show ?case
    by (cases d) simp_all
qed

text \<open>
  C6: resolving the empty string returns the root object.  When the attributes along a
  non-empty prefix of the path lead to \<open>None\<close>, the result is \<open>None\<close>, whatever segments
  follow and whether or not a default was given.  When the value reached by a prefix
  lacks the next attribute, the call without a default raises \<open>AttributeError\<close> with a
  message that holds the type name of the root object and the full path, and the call
  with a default returns the default.
\<close>

theorem getattr_path_resolution:
  "getattr_path obj (PathStr []) d = Inr obj
   \<and> (path \<noteq> PathStr [] \<and> ap_parts (str_to_path path) = pre @ rest \<and> pre \<noteq> []
        \<and> attr_chain obj pre = Some PyNone \<longrightarrow>
      getattr_path obj path d = Inr PyNone)
   \<and> (path \<noteq> PathStr [] \<and> ap_parts (str_to_path path) = pre @ name # rest
        \<and> attr_chain obj pre = Some cur \<and> (pre = [] \<or> cur \<noteq> PyNone)
        \<and> getattr cur name = None \<longrightarrow>
      getattr_path obj path MISSING
        = Inl (AttributeError
                 (quoted (type_name obj) @ '' object has no attribute path ''
                    @ quoted (path_text path) @ '', since ''
                    @ no_attribute (type_name cur) name))
      \<and> getattr_path obj path (Default dv) = Inr dv)"
proof (intro conjI impI)
  show "getattr_path obj (PathStr []) d = Inr obj"
    by (simp add: getattr_path_def)
next
  assume a: "path \<noteq> PathStr [] \<and> ap_parts (str_to_path path) = pre @ rest \<and> pre \<noteq> []
        \<and> attr_chain obj pre = Some PyNone"
  then have "getattr_loop d obj path obj (pre @ rest) = Inr PyNone"
    by (simp add: getattr_loop_none)
  with a show "getattr_path obj path d = Inr PyNone"
    by (simp add: getattr_path_def)
next
  assume a: "path \<noteq> PathStr [] \<and> ap_parts (str_to_path path) = pre @ name # rest
        \<and> attr_chain obj pre = Some cur \<and> (pre = [] \<or> cur \<noteq> PyNone)
        \<and> getattr cur name = None"
  then have l: "getattr_loop d' obj path obj (pre @ name # rest)
     = (case d' of
          MISSING \<Rightarrow> Inl (AttributeError (path_error_msg obj path (no_attribute (type_name cur) name)))
        | Default dv \<Rightarrow> Inr dv)" for d'
    by (intro getattr_loop_absent) simp_all
  from a l [of MISSING] show "getattr_path obj path MISSING
        = Inl (AttributeError
                 (quoted (type_name obj) @ '' object has no attribute path ''
                    @ quoted (path_text path) @ '', since ''
                    @ no_attribute (type_name cur) name))"
    by (simp add: getattr_path_def path_error_msg_def)
  from a l [of "Default dv"] show "getattr_path obj path (Default dv) = Inr dv"
    by (simp add: getattr_path_def)
qed

theorem getattr_path_resolution_witness:
  "getattr_path example_thing (PathStr ''year_published__value__more'') MISSING = Inr PyNone
   \<and> getattr_path example_thing (PathStr ''name__missing__more'') MISSING
       = Inl (AttributeError
                (quoted ''Thing'' @ '' object has no attribute path ''
                   @ quoted ''name__missing__more'' @ '', since ''
                   @ no_attribute ''ThingName'' ''missing''))
   \<and> getattr_path example_thing (PathStr ''name__missing__more'') (Default (PyInt 0))
       = Inr (PyInt 0)"
proof -
  have p1: "ap_parts (str_to_path (PathStr ''year_published__value__more''))
              = [''year_published''] @ [''value'', ''more'']"
    by code_simp
  have c1: "attr_chain example_thing [''year_published''] = Some PyNone"
    by code_simp
  have p2: "ap_parts (str_to_path (PathStr ''name__missing__more''))
              = [''name''] @ ''missing'' # [''more'']"
    by code_simp
  have c2: "attr_chain example_thing [''name'']
              = Some (PyObj ''ThingName'' [(''value'', PyStr ''Catan'')])"
    by code_simp
  have g2: "getattr (PyObj ''ThingName'' [(''value'', PyStr ''Catan'')]) ''missing'' = None"
    by code_simp
  note t1 = getattr_path_resolution
    [of example_thing MISSING "PathStr ''year_published__value__more''"
        "[''year_published'']" "[''value'', ''more'']"]
  note t2 = getattr_path_resolution
    [of example_thing MISSING "PathStr ''name__missing__more''"
        "[''name'']" "[''more'']" "''missing''"
        "PyObj ''ThingName'' [(''value'', PyStr ''Catan'')]" "PyInt 0"]
  from t1 p1 c1
  have r1: "getattr_path example_thing (PathStr ''year_published__value__more'') MISSING = Inr PyNone"
    by simp
  from t2 p2 c2 g2 show ?thesis
    using r1 by simp
qed

section \<open>Properties of the predicate key\<close>

lemma last_token_split:
  "CHR ''_'' \<notin> set g2 \<Longrightarrow> last_token (g1 @ CHR ''_'' # g2) = g2"
  by (simp add: last_token_def takeWhile_append)

lemma underscore_positions:
  assumes "CHR ''_'' \<notin> set g2"
  shows "filter (\<lambda>i. (g1 @ CHR ''_'' # g2) ! i = CHR ''_'') (rev [0..<length (g1 @ CHR ''_'' # g2)])
         = length g1 # filter (\<lambda>i. (g1 @ CHR ''_'' # g2) ! i = CHR ''_'') (rev [0..<length g1])"
proof -
  let ?lhs = "g1 @ CHR ''_'' # g2"
  let ?n = "length g1"
  have "[0..<?n + Suc (length g2)] = [0..<?n] @ [?n..<?n + Suc (length g2)]"
    by (rule upt_add_eq_append) simp
  moreover have "[?n..<?n + Suc (length g2)] = ?n # [Suc ?n..<?n + Suc (length g2)]"
    by (rule upt_conv_Cons) simp
  ultimately have "[0..<length ?lhs] = [0..<?n] @ ?n # [Suc ?n..<Suc ?n + length g2]"
    by simp
  then have r: "rev [0..<length ?lhs] = rev [Suc ?n..<Suc ?n + length g2] @ ?n # rev [0..<?n]"
    by simp
  have "\<forall>i\<in>set [Suc ?n..<Suc ?n + length g2]. ?lhs ! i \<noteq> CHR ''_''"
  proof
    fix i assume "i \<in> set [Suc ?n..<Suc ?n + length g2]"
    then have i: "Suc ?n \<le> i" "i - Suc ?n < length g2" by auto
    then have "?lhs ! i = g2 ! (i - Suc ?n)"
      by (simp add: nth_append nth_Cons')
    with i assms show "?lhs ! i \<noteq> CHR ''_''"
      by (metis nth_mem)
  qed
  then have "filter (\<lambda>i. ?lhs ! i = CHR ''_'') (rev [Suc ?n..<Suc ?n + length g2]) = []"
    by (auto simp: filter_empty_conv)
  with r show ?thesis by simp
qed

lemma re_search_split:
  assumes "CHR ''_'' \<notin> set g2"
  shows "re_search (g1 @ CHR ''_'' # g2)
         = (if g1 \<noteq> [] \<and> list_all is_word_char g1 \<and> g2 \<noteq> [] then Some (g1, g2) else None)"
proof -
  let ?lhs = "g1 @ CHR ''_'' # g2"
  let ?P = "\<lambda>(a, b). a \<noteq> [] \<and> list_all is_word_char a \<and>
                       b \<noteq> [] \<and> list_all (\<lambda>c. c \<noteq> CHR ''_'') b"
  let ?f = "\<lambda>i. (take i ?lhs, drop (Suc i) ?lhs)"
  let ?rest = "filter (\<lambda>i. ?lhs ! i = CHR ''_'') (rev [0..<length g1])"
  have cand: "re_search ?lhs = find ?P (?f (length g1) # map ?f ?rest)"
    unfolding re_search_def underscore_positions [OF assms] by simp
  have here: "?f (length g1) = (g1, g2)" by simp
  have g2: "list_all (\<lambda>c. c \<noteq> CHR ''_'') g2"
    using assms by (auto simp: list_all_iff)
  have rest: "find ?P (map ?f ?rest) = None"
  proof -
    have "\<not> ?P (?f i)" if "i < length g1" for i
    proof -
      from that have "drop (Suc i) ?lhs = drop (Suc i) g1 @ CHR ''_'' # g2" by simp
      then have "CHR ''_'' \<in> set (drop (Suc i) ?lhs)" by simp
      then show ?thesis by (auto simp: list_all_iff)
    qed
    then show ?thesis by (auto simp: find_None_iff)
  qed
  show ?thesis
    unfolding cand using here g2 rest by simp
qed

lemma re_search_no_underscore:
  "CHR ''_'' \<notin> set lhs \<Longrightarrow> re_search lhs = None"
proof -
  assume a: "CHR ''_'' \<notin> set lhs"
  have "filter (\<lambda>i. lhs ! i = CHR ''_'') (rev [0..<length lhs]) = []"
    using a nth_mem by (fastforce simp: filter_empty_conv)
  then show ?thesis by (simp add: re_search_def)
qed

lemma split_lhs_unregistered:
  assumes "map_of Operators_members (upper (last_token lhs)) = None"
  shows "isl (split_lhs lhs)"
proof (cases "CHR ''_'' \<in> set lhs")
  case False
  then show ?thesis by (simp add: split_lhs_def re_search_no_underscore)
next
  case True
  then obtain g1 g2 where l: "lhs = g1 @ CHR ''_'' # g2" and n: "CHR ''_'' \<notin> set g2"
    by (auto dest: split_list_last)
  from assms l n have "map_of Operators_members (upper g2) = None"
    by (simp add: last_token_split)
  then show ?thesis
    by (simp add: l split_lhs_def re_search_split [OF n] Operators_getitem_def)
qed

lemma upper_iexact: "map_of Operators_members (upper ''iexact'') = None"
  by code_simp

text \<open>
  C1, as the specification states it: the suffix \<open>iexact\<close> is decoded to the operator
  \<open>IEQUAL\<close>.  It is not: the key \<open>name__value_iexact\<close> gives the operator name \<open>IEXACT\<close>,
  which is no member of \<open>Operators\<close>, and the lookup raises \<open>KeyError\<close>.
\<close>

theorem iexact_is_not_registered:
  "split_lhs ''name__value_iexact'' = Inl (KeyError ''IEXACT'')"
  by code_simp

text \<open>
  C1, amended: a key made of a non-empty run of word characters, an underscore and a
  non-empty token without underscore is decoded into the path before that last
  underscore and the member of \<open>Operators\<close> whose name is the token in upper case, and
  fails with \<open>KeyError\<close> when there is no such member; \<open>name__value_iequal\<close> gives the
  segments \<open>name\<close>, \<open>value\<close> and \<open>IEQUAL\<close>; every key that ends in \<open>_iexact\<close> fails; every
  key whose trailing token is not the name of a member fails, and so do \<open>filter\<close> and
  \<open>exclude\<close> called with it, leaving the collection as it was.
\<close>

theorem split_lhs_decodes:
  "(g1 \<noteq> [] \<and> list_all is_word_char g1 \<and> g2 \<noteq> [] \<and> CHR ''_'' \<notin> set g2 \<longrightarrow>
      split_lhs (g1 @ ''_'' @ g2)
        = (case map_of Operators_members (upper g2) of
             None \<Rightarrow> Inl (KeyError (upper g2))
           | Some operator \<Rightarrow> Inr (AttrPath_init g1, operator)))
   \<and> split_lhs ''name__value_iequal''
        = Inr (\<lparr>ap_value = ''name__value'', ap_parts = [''name'', ''value'']\<rparr>, IEQUAL)
   \<and> isl (split_lhs (g @ ''_iexact''))
   \<and> (map_of Operators_members (upper (last_token lhs)) = None \<longrightarrow>
        isl (split_lhs lhs)
        \<and> SearchBase_filter [(lhs, rhs)] s = (Inl (projl (split_lhs lhs)), s)
        \<and> SearchBase_exclude [(lhs, rhs)] s = (Inl (projl (split_lhs lhs)), s))"
proof (intro conjI impI)
  assume "g1 \<noteq> [] \<and> list_all is_word_char g1 \<and> g2 \<noteq> [] \<and> CHR ''_'' \<notin> set g2"
  then show "split_lhs (g1 @ ''_'' @ g2)
        = (case map_of Operators_members (upper g2) of
             None \<Rightarrow> Inl (KeyError (upper g2))
           | Some operator \<Rightarrow> Inr (AttrPath_init g1, operator))"
    by (simp add: split_lhs_def re_search_split Operators_getitem_def split: option.splits)
next
  show "split_lhs ''name__value_iequal''
        = Inr (\<lparr>ap_value = ''name__value'', ap_parts = [''name'', ''value'']\<rparr>, IEQUAL)"
    by code_simp
next
  have "last_token (g @ ''_iexact'') = ''iexact''"
    using last_token_split [of "''iexact''" g] by simp
  then show "isl (split_lhs (g @ ''_iexact''))"
    using split_lhs_unregistered [of "g @ ''_iexact''"] upper_iexact by simp
next
  assume a: "map_of Operators_members (upper (last_token lhs)) = None"
  then show i: "isl (split_lhs lhs)" by (rule split_lhs_unregistered)
  then obtain e where e: "split_lhs lhs = Inl e" by (cases "split_lhs lhs") auto
  then show "SearchBase_filter [(lhs, rhs)] s = (Inl (projl (split_lhs lhs)), s)"
    by (simp add: SearchBase_filter_def get_compare_tuple_def split_kwarg_def)
  from e show "SearchBase_exclude [(lhs, rhs)] s = (Inl (projl (split_lhs lhs)), s)"
    by (simp add: SearchBase_exclude_def get_compare_tuple_def split_kwarg_def)
qed

theorem split_lhs_decodes_witness:
  "(''name__value'' \<noteq> [] \<and> list_all is_word_char ''name__value'' \<and> ''startswith'' \<noteq> []
      \<and> CHR ''_'' \<notin> set ''startswith'')
   \<and> split_lhs (''name__value'' @ ''_'' @ ''startswith'')
        = Inr (AttrPath_init ''name__value'', STARTSWITH)
   \<and> map_of Operators_members (upper (last_token ''name__value_iexact'')) = None
   \<and> SearchBase_filter [(''name__value_iexact'', PyStr ''x'')] links
        = (Inl (KeyError ''IEXACT''), links)
   \<and> SearchBase_exclude [(''name__value_iexact'', PyStr ''x'')] links
        = (Inl (KeyError ''IEXACT''), links)"
proof -
  have h1: "''name__value'' \<noteq> [] \<and> list_all is_word_char ''name__value'' \<and> ''startswith'' \<noteq> []
      \<and> CHR ''_'' \<notin> set ''startswith''"
    by code_simp
  have m: "map_of Operators_members (upper ''startswith'') = Some STARTSWITH"
    by code_simp
  have h2: "map_of Operators_members (upper (last_token ''name__value_iexact'')) = None"
    by code_simp
  have e: "projl (split_lhs ''name__value_iexact'') = KeyError ''IEXACT''"
    by code_simp
  note t = split_lhs_decodes
    [of "''name__value''" "''startswith''" "[]" "''name__value_iexact''" "PyStr ''x''" links]
  from t h1 m have r1: "split_lhs (''name__value'' @ ''_'' @ ''startswith'')
        = Inr (AttrPath_init ''name__value'', STARTSWITH)"
    by simp
  from t h2 e have r2: "SearchBase_filter [(''name__value_iexact'', PyStr ''x'')] links
        = (Inl (KeyError ''IEXACT''), links)"
    and r3: "SearchBase_exclude [(''name__value_iexact'', PyStr ''x'')] links
        = (Inl (KeyError ''IEXACT''), links)"
    by simp_all
  from h1 r1 h2 r2 r3 show ?thesis by simp
qed

section \<open>Properties of the searchable collection\<close>


lemma comprehension_Inr:
  "comprehension test xs = Inr kept \<Longrightarrow>
   (\<forall>x\<in>set xs. \<exists>b. test x = Inr b) \<and> kept = filter (\<lambda>x. test x = Inr True) xs"
proof (induction xs arbitrary: kept)
  case Nil
  then show ?case by simp
next
  case (Cons x xs)
  from Cons.prems obtain b rest where
    b: "test x = Inr b" and rest: "comprehension test xs = Inr rest"
    and kept: "kept = (if b then x # rest else rest)"
    by (auto split: sum.splits)
  from Cons.IH [OF rest] b kept show ?case by auto
qed





text \<open>
  C10: a call of \<open>filter\<close> or \<open>exclude\<close> that fails, for whatever reason, leaves the
  collection as it was before the call.
\<close>

theorem failed_call_leaves_root:
  "(isl (fst (SearchBase_filter kw s)) \<longrightarrow> snd (SearchBase_filter kw s) = s)
   \<and> (isl (fst (SearchBase_exclude kw s)) \<longrightarrow> snd (SearchBase_exclude kw s) = s)"
  by (auto simp: SearchBase_filter_def SearchBase_exclude_def split: sum.splits prod.splits)

theorem failed_call_leaves_root_witness:
  "isl (fst (SearchBase_filter [(''id'', PyInt 2)] links))
   \<and> snd (SearchBase_filter [(''id'', PyInt 2)] links) = links
   \<and> isl (fst (SearchBase_exclude [(''id_iexact'', PyInt 2)] links))
   \<and> snd (SearchBase_exclude [(''id_iexact'', PyInt 2)] links) = links
   \<and> isl (fst (SearchBase_filter [(''name_eq'', PyInt 2)] links))
   \<and> snd (SearchBase_filter [(''name_eq'', PyInt 2)] links) = links"
proof -
  have h1: "isl (fst (SearchBase_filter [(''id'', PyInt 2)] links))"
    by code_simp
  have h2: "isl (fst (SearchBase_exclude [(''id_iexact'', PyInt 2)] links))"
    by code_simp
  have h3: "isl (fst (SearchBase_filter [(''name_eq'', PyInt 2)] links))"
    by code_simp
  from failed_call_leaves_root [of "[(''id'', PyInt 2)]" links] h1
  have r1: "snd (SearchBase_filter [(''id'', PyInt 2)] links) = links" by simp
  from failed_call_leaves_root [of "[(''id_iexact'', PyInt 2)]" links] h2
  have r2: "snd (SearchBase_exclude [(''id_iexact'', PyInt 2)] links) = links" by simp
  from failed_call_leaves_root [of "[(''name_eq'', PyInt 2)]" links] h3
  have r3: "snd (SearchBase_filter [(''name_eq'', PyInt 2)] links) = links" by simp
  from h1 h2 h3 r1 r2 r3 show ?thesis by simp
qed

text \<open>
  C2, as the specification states it: after \<open>get\<close> every element of the collection is
  still in it.  It is not: \<open>get\<close> calls \<open>filter\<close> on the collection itself, and the link
  that does not match is gone after the call.
\<close>

theorem get_removes_unmatched:
  "root (snd (SearchBase_get PyNone [(''id_eq'', PyInt 63306)] links)) = [link_a]
   \<and> link_b \<in> set (root links)
   \<and> link_b \<notin> set (root (snd (SearchBase_get PyNone [(''id_eq'', PyInt 63306)] links)))"
  by code_simp

text \<open>
  C2, amended: \<open>get\<close> leaves the collection as \<open>filter\<close> with the same predicate leaves
  it: when the call fails the wrapped list is unchanged, and when it returns the wrapped
  list holds the elements that matched the predicate, in their order, and no other.
\<close>

theorem get_filters_in_place:
  "snd (SearchBase_get d kw s) = snd (SearchBase_filter kw s)
   \<and> (isl (fst (SearchBase_get d kw s)) \<longrightarrow> root (snd (SearchBase_get d kw s)) = root s)
   \<and> (\<not> isl (fst (SearchBase_get d kw s)) \<longrightarrow>
        (\<exists>lhs rhs operator. get_compare_tuple kw = Inr (lhs, rhs, operator)
           \<and> root (snd (SearchBase_get d kw s))
               = filter (\<lambda>item. compare item lhs rhs operator = Inr True) (root s)))"
proof (intro conjI impI)
  show "snd (SearchBase_get d kw s) = snd (SearchBase_filter kw s)"
    by (auto simp: SearchBase_get_def split: prod.splits sum.splits)
next
  assume "isl (fst (SearchBase_get d kw s))"
  then show "root (snd (SearchBase_get d kw s)) = root s"
    by (auto simp: SearchBase_get_def SearchBase_filter_def split: prod.splits sum.splits if_splits)
next
  assume "\<not> isl (fst (SearchBase_get d kw s))"
  then obtain lhs rhs operator kept where
    t: "get_compare_tuple kw = Inr (lhs, rhs, operator)"
    and k: "comprehension (\<lambda>item. compare item lhs rhs operator) (root s) = Inr kept"
    by (auto simp: SearchBase_get_def SearchBase_filter_def split: prod.splits sum.splits if_splits)
  from comprehension_Inr [OF k]
  have "kept = filter (\<lambda>item. compare item lhs rhs operator = Inr True) (root s)"
    by simp
  with t k show "\<exists>lhs rhs operator. get_compare_tuple kw = Inr (lhs, rhs, operator)
           \<and> root (snd (SearchBase_get d kw s))
               = filter (\<lambda>item. compare item lhs rhs operator = Inr True) (root s)"
    by (auto simp: SearchBase_get_def SearchBase_filter_def split: prod.splits sum.splits)
qed

theorem get_filters_in_place_witness:
  "isl (fst (SearchBase_get PyNone [(''name_eq'', PyInt 2)] links))
   \<and> root (snd (SearchBase_get PyNone [(''name_eq'', PyInt 2)] links)) = root links
   \<and> \<not> isl (fst (SearchBase_get PyNone [(''id_eq'', PyInt 2)] links))
   \<and> root (snd (SearchBase_get PyNone [(''id_eq'', PyInt 2)] links)) = [link_b]"
proof -
  have h1: "isl (fst (SearchBase_get PyNone [(''name_eq'', PyInt 2)] links))"
    by code_simp
  have h2: "\<not> isl (fst (SearchBase_get PyNone [(''id_eq'', PyInt 2)] links))"
    by code_simp
  have t: "get_compare_tuple [(''id_eq'', PyInt 2)]
             = Inr (\<lparr>ap_value = ''id'', ap_parts = [''id'']\<rparr>, PyInt 2, EQ)"
    by code_simp
  have f: "filter (\<lambda>item. compare item \<lparr>ap_value = ''id'', ap_parts = [''id'']\<rparr> (PyInt 2) EQ = Inr True)
             (root links) = [link_b]"
    by code_simp
  from get_filters_in_place [of PyNone "[(''name_eq'', PyInt 2)]" links, THEN conjunct2] h1
  have r1: "root (snd (SearchBase_get PyNone [(''name_eq'', PyInt 2)] links)) = root links"
    by simp
  from get_filters_in_place [of PyNone "[(''id_eq'', PyInt 2)]" links, THEN conjunct2] h2 t f
  have r2: "root (snd (SearchBase_get PyNone [(''id_eq'', PyInt 2)] links)) = [link_b]"
    by simp
  from h1 h2 r1 r2 show ?thesis by simp
qed







section \<open>Properties of the catalog item\<close>

text \<open>
  C3: a catalog item whose name list is empty is never built.  A name given as one bare
  object is refused too, since the field \<open>name\<close> takes a list and nothing wraps the
  object; the same object inside a list gives a one-element name list.
\<close>

theorem Thing_single_name_rejected:
  "isl (Thing_init others [(''name'', RList [])])
   \<and> Thing_init (Inr o_fields) [(''name'', RDict d)]
        = Inl (ValidationError [''Input should be a valid list''])
   \<and> Thing_init (Inr o_fields)
        [(''name'', RList [RDict [(''@type'', RStr ''primary''), (''@value'', RStr ''Catan'')]])]
        = Inr \<lparr>thing_name = [\<lparr>name_type = PRIMARY, tn_value = ''Catan''\<rparr>],
               thing_others = o_fields\<rparr>"
  by (cases others)
    (simp_all add: Thing_init_def alias_choices_def remove_underscore_def
      add_symbol_remove_underscore_def add_attribute_symbol_def validate_name_field_def
      after_validator_def not_empty_def)

end
